theory Spec2Isabelle
  imports Complex_Main "HOL-Library.Multiset"
begin

section \<open>Roomba Cleanup: the game state of \<open>roomba_game.py\<close>\<close>

text \<open>
  The module holds one class, \<open>RoombaCleanupGame\<close>. Its game logic works on five
  attributes (\<open>player\<close>, \<open>trash\<close>, \<open>poop\<close>, \<open>game_over\<close>, \<open>victory\<close>) and four class
  constants. The tkinter widgets (\<open>canvas\<close>, \<open>status_var\<close>, the labels) are only written
  by \<open>update_status\<close>, \<open>draw\<close> and \<open>draw_tile\<close>, which read the five attributes and never
  assign them; they and the re-arming call \<open>root.after\<close> are left out of the model.
\<close>

subsection \<open>Data\<close>

text \<open>\<open>@dataclass(frozen=True) class Point\<close>: two Python integers, compared by value.\<close>

datatype Point = Point (point_x: int) (point_y: int)

text \<open>
  The class constants the logic reads. They are taken as a parameter so that the small
  grids of the specification's scenarios can be run; \<open>RoombaCleanupGame\<close> below holds the
  values written in the source. \<open>POOP_SPAWN_CHANCE\<close> is a float in the source and is only
  ever compared with the float drawn by \<open>random.random()\<close>; both are rationals here.
\<close>

record config =
  GRID_WIDTH :: int
  GRID_HEIGHT :: int
  STARTING_TRASH :: int
  POOP_SPAWN_CHANCE :: rat


record GameState =
  player :: Point
  trash :: "Point set"
  poop :: "Point set"
  game_over :: bool
  victory :: bool

text \<open>\<open>list.remove\<close> raises \<open>ValueError\<close> when the element is absent.\<close>

datatype error = ValueError

subsection \<open>The standard library calls\<close>

text \<open>
  The module draws its randomness from the ambient \<open>random\<close> module. Every call site
  receives its raw draws as an argument: a natural number that \<open>randbelow\<close> reduces into
  the requested range, and for \<open>random.random()\<close> the float itself.
\<close>

definition randbelow :: "nat \<Rightarrow> nat \<Rightarrow> nat" where
  "randbelow r n = r mod n"

text \<open>
  \<open>random.shuffle(x)\<close> is the loop
  \<^verbatim>\<open>for i in reversed(range(1, len(x))): j = randbelow(i + 1); x[i], x[j] = x[j], x[i]\<close>
  and \<open>rng i\<close> is the raw draw made at index \<open>i\<close>.
\<close>

definition shuffle :: "(nat \<Rightarrow> nat) \<Rightarrow> 'a list \<Rightarrow> 'a list" where
  "shuffle rng xs =
     fold (\<lambda>i x. let j = randbelow (rng i) (i + 1) in x[i := x ! j, j := x ! i])
       (rev [1..<length xs]) xs"

text \<open>\<open>random.choice(seq)\<close> is \<open>seq[randbelow(len(seq))]\<close>; it is only called on a non-empty list.\<close>

definition choice :: "nat \<Rightarrow> 'a list \<Rightarrow> 'a" where
  "choice r xs = xs ! randbelow r (length xs)"

text \<open>The slice \<open>xs[:k]\<close>: a negative \<open>k\<close> counts from the end, and nothing is ever out of range.\<close>

definition slice_to :: "int \<Rightarrow> 'a list \<Rightarrow> 'a list" where
  "slice_to k xs = (if k < 0 then take (nat (int (length xs) + k)) xs else take (nat k) xs)"

text \<open>\<open>str.lower\<close> on the ASCII key names that tkinter delivers.\<close>

definition lower_char :: "char \<Rightarrow> char" where
  "lower_char c =
     (case map_of (zip ''ABCDEFGHIJKLMNOPQRSTUVWXYZ'' ''abcdefghijklmnopqrstuvwxyz'') c of
        None \<Rightarrow> c
      | Some l \<Rightarrow> l)"

definition lower :: "string \<Rightarrow> string" where
  "lower s = map lower_char s"

subsection \<open>The methods\<close>

text \<open>\<open>Point(self.GRID_WIDTH // 2, self.GRID_HEIGHT // 2)\<close>; \<open>//\<close> and \<open>div\<close> both round down.\<close>

definition center :: "config \<Rightarrow> Point" where
  "center cfg = Point (GRID_WIDTH cfg div 2) (GRID_HEIGHT cfg div 2)"

definition populate_trash :: "config \<Rightarrow> (nat \<Rightarrow> nat) \<Rightarrow> GameState \<Rightarrow> error + GameState" where
  "populate_trash cfg rng s =
     (let available = [Point x y. x \<leftarrow> [0..GRID_WIDTH cfg - 1], y \<leftarrow> [0..GRID_HEIGHT cfg - 1]]
      in if player s \<notin> set available then Inl ValueError
         else let available = remove1 (player s) available;
                  available = shuffle rng available
              in Inr (s\<lparr>trash := set (slice_to (STARTING_TRASH cfg) available)\<rparr>))"

text \<open>The part of \<open>__init__\<close> that sets the game attributes, then \<open>populate_trash\<close>.\<close>

definition init :: "config \<Rightarrow> (nat \<Rightarrow> nat) \<Rightarrow> error + GameState" where
  "init cfg rng =
     populate_trash cfg rng
       \<lparr>player = center cfg, trash = {}, poop = {}, game_over = False, victory = False\<rparr>"

definition restart :: "config \<Rightarrow> (nat \<Rightarrow> nat) \<Rightarrow> GameState \<Rightarrow> error + GameState" where
  "restart cfg rng s =
     populate_trash cfg rng
       (s\<lparr>player := center cfg, trash := {}, poop := {}, game_over := False, victory := False\<rparr>)"

definition trigger_game_over :: "GameState \<Rightarrow> GameState" where
  "trigger_game_over s = s\<lparr>game_over := True, victory := False\<rparr>"

definition resolve_player_tile :: "GameState \<Rightarrow> GameState" where
  "resolve_player_tile s =
     (if player s \<in> poop s then trigger_game_over s
      else if player s \<in> trash s then
        (let s1 = s\<lparr>trash := trash s - {player s}\<rparr>
         in if trash s1 = {} then s1\<lparr>victory := True, game_over := True\<rparr> else s1)
      else s)"

definition movement :: "string \<Rightarrow> Point option" where
  "movement =
     map_of [(''Up'', Point 0 (- 1)), (''Down'', Point 0 1),
             (''Left'', Point (- 1) 0), (''Right'', Point 1 0),
             (''w'', Point 0 (- 1)), (''s'', Point 0 1),
             (''a'', Point (- 1) 0), (''d'', Point 1 0)]"

definition next_pos :: "config \<Rightarrow> Point \<Rightarrow> Point \<Rightarrow> Point" where
  "next_pos cfg p delta =
     Point (min (max (point_x p + point_x delta) 0) (GRID_WIDTH cfg - 1))
           (min (max (point_y p + point_y delta) 0) (GRID_HEIGHT cfg - 1))"

text \<open>
  \<open>handle_keypress\<close> gets the key name \<open>event.keysym\<close>; \<open>rng\<close> feeds the shuffle of a
  restart. \<open>if not delta\<close> tests for \<open>None\<close>: a \<open>Point\<close> is never falsy.
\<close>

definition handle_keypress ::
  "config \<Rightarrow> string \<Rightarrow> (nat \<Rightarrow> nat) \<Rightarrow> GameState \<Rightarrow> error + GameState" where
  "handle_keypress cfg keysym rng s =
     (if game_over s then
        (if lower keysym = ''r'' then restart cfg rng s else Inr s)
      else case movement keysym of
        None \<Rightarrow> Inr s
      | Some delta \<Rightarrow>
          Inr (resolve_player_tile (s\<lparr>player := next_pos cfg (player s) delta\<rparr>)))"

definition candidates :: "config \<Rightarrow> GameState \<Rightarrow> Point list" where
  "candidates cfg s =
     [Point x y. x \<leftarrow> [0..GRID_WIDTH cfg - 1], y \<leftarrow> [0..GRID_HEIGHT cfg - 1],
        Point x y \<notin> poop s \<and> Point x y \<notin> trash s]"

text \<open>\<open>u\<close> is the value of \<open>random.random()\<close>, \<open>r\<close> the raw draw of \<open>random.choice\<close>.\<close>

definition poop_spawn_tick :: "config \<Rightarrow> rat \<Rightarrow> nat \<Rightarrow> GameState \<Rightarrow> GameState" where
  "poop_spawn_tick cfg u r s =
     (if \<not> game_over s \<and> u < POOP_SPAWN_CHANCE cfg then
        (if candidates cfg s \<noteq> [] then
           (let spawned = choice r (candidates cfg s);
                s1 = s\<lparr>poop := insert spawned (poop s)\<rparr>
            in if spawned = player s then trigger_game_over s1 else s1)
         else s)
      else s)"

subsection \<open>Runs of the game\<close>

text \<open>
  The two event sources of the program: a key press delivered to \<open>handle_keypress\<close> and
  the timer calling \<open>poop_spawn_tick\<close>. A run is \<open>__init__\<close> followed by any sequence of
  them, each with the random draws it consumes; an exception ends the run.
\<close>

datatype event = KeyPress string "nat \<Rightarrow> nat" | SpawnTick rat nat

fun run :: "config \<Rightarrow> GameState \<Rightarrow> event list \<Rightarrow> error + GameState" where
  "run cfg s [] = Inr s"
| "run cfg s (KeyPress keysym rng # es) =
     (case handle_keypress cfg keysym rng s of Inl e \<Rightarrow> Inl e | Inr s' \<Rightarrow> run cfg s' es)"
| "run cfg s (SpawnTick u r # es) = run cfg (poop_spawn_tick cfg u r s) es"

definition play :: "config \<Rightarrow> (nat \<Rightarrow> nat) \<Rightarrow> event list \<Rightarrow> error + GameState" where
  "play cfg rng es = (case init cfg rng of Inl e \<Rightarrow> Inl e | Inr s \<Rightarrow> run cfg s es)"

subsection \<open>Notions used in the statements and proofs\<close>

text \<open>The cells of the board, \<open>[0, GRID_WIDTH) \<times> [0, GRID_HEIGHT)\<close>.\<close>

definition in_grid :: "config \<Rightarrow> Point \<Rightarrow> bool" where
  "in_grid cfg p \<longleftrightarrow>
     0 \<le> point_x p \<and> point_x p < GRID_WIDTH cfg \<and> 0 \<le> point_y p \<and> point_y p < GRID_HEIGHT cfg"

text \<open>The enumeration that \<open>populate_trash\<close> and \<open>poop_spawn_tick\<close> both start from.\<close>

definition cells :: "config \<Rightarrow> Point list" where
  "cells cfg = [Point x y. x \<leftarrow> [0..GRID_WIDTH cfg - 1], y \<leftarrow> [0..GRID_HEIGHT cfg - 1]]"

text \<open>The list \<open>populate_trash\<close> slices when the player is at the centre.\<close>

definition shuffled :: "config \<Rightarrow> (nat \<Rightarrow> nat) \<Rightarrow> Point list" where
  "shuffled cfg rng = shuffle rng (remove1 (center cfg) (cells cfg))"

definition lost_on_poop :: "GameState \<Rightarrow> bool" where
  "lost_on_poop s \<longleftrightarrow> (game_over s \<and> \<not> victory s \<longrightarrow> player s \<in> poop s)"

text \<open>An event that is a key press of a movement key, or a timer tick.\<close>

fun movement_or_tick :: "event \<Rightarrow> bool" where
  "movement_or_tick (KeyPress keysym rng) = (movement keysym \<noteq> None)"
| "movement_or_tick (SpawnTick u r) = True"

text \<open>
  The clamp of the specification, written from its words (\<open>clamp(v, lo, hi)\<close> brings \<open>v\<close>
  into \<open>[lo, hi]\<close>), to be compared with the \<open>min (max \<dots>)\<close> of \<open>next_pos\<close>.
\<close>

definition clamp :: "int \<Rightarrow> int \<Rightarrow> int \<Rightarrow> int" where
  "clamp v lo hi = (if v < lo then lo else if hi < v then hi else v)"

subsection \<open>Small boards\<close>

text \<open>
  The 3\<times>3 board with one trash tile of the specification's scenarios, a 2\<times>2 board whose
  \<open>STARTING_TRASH\<close> equals its number of cells, and a random source that always draws 0.
\<close>

definition grid3 :: config where
  "grid3 = \<lparr>GRID_WIDTH = 3, GRID_HEIGHT = 3, STARTING_TRASH = 1, POOP_SPAWN_CHANCE = 26 / 100\<rparr>"

definition grid2 :: config where
  "grid2 = \<lparr>GRID_WIDTH = 2, GRID_HEIGHT = 2, STARTING_TRASH = 4, POOP_SPAWN_CHANCE = 26 / 100\<rparr>"

definition zero_draws :: "nat \<Rightarrow> nat" where
  "zero_draws i = 0"

text \<open>A random source whose draw at index \<open>i\<close> is \<open>i\<close>: the shuffle then swaps nothing.\<close>

definition last_draws :: "nat \<Rightarrow> nat" where
  "last_draws i = i"

definition start3 :: GameState where
  "start3 =
     \<lparr>player = Point 1 1, trash = {Point 0 1}, poop = {}, game_over = False, victory = False\<rparr>"

definition start2 :: GameState where
  "start2 =
     \<lparr>player = Point 1 1, trash = {Point 0 0, Point 0 1, Point 1 0}, poop = {},
      game_over = False, victory = False\<rparr>"

definition lost3 :: GameState where
  "lost3 =
     \<lparr>player = Point 1 1, trash = {Point 0 1}, poop = {Point 1 1}, game_over = True, victory = False\<rparr>"

section \<open>Properties\<close>



lemma set_rows: "set (concat (map (\<lambda>x. map (Point x) ys) xs)) = {p. point_x p \<in> set xs \<and> point_y p \<in> set ys}"
proof (induction xs)
  case Nil
  then show ?case by simp
next
  case (Cons x xs)
  have "set (map (Point x) ys) = {p. point_x p = x \<and> point_y p \<in> set ys}"
  proof (intro set_eqI iffI)
    fix p assume "p \<in> {p. point_x p = x \<and> point_y p \<in> set ys}"
    then show "p \<in> set (map (Point x) ys)" by (cases p) simp
  qed auto
  with Cons show ?case by auto
qed

lemma set_cells: "set (cells cfg) = {p. in_grid cfg p}"
  unfolding cells_def set_rows by (auto simp: in_grid_def)

lemma distinct_rows:
  "distinct xs \<Longrightarrow> distinct ys \<Longrightarrow> distinct (concat (map (\<lambda>x. map (Point x) ys) xs))"
proof (induction xs)
  case Nil
  then show ?case by simp
next
  case (Cons x xs)
  have "distinct (map (Point x) ys)"
    using Cons.prems by (simp add: distinct_map inj_on_def)
  moreover have "set (map (Point x) ys) \<inter> set (concat (map (\<lambda>x. map (Point x) ys) xs)) = {}"
    using Cons.prems by (auto simp: set_rows)
  ultimately show ?case using Cons by simp
qed

lemma distinct_cells: "distinct (cells cfg)"
  by (simp add: cells_def distinct_rows)

lemma length_rows: "length (concat (map (\<lambda>x. map (Point x) ys) xs)) = length xs * length ys"
  by (induction xs) auto

lemma length_cells: "length (cells cfg) = nat (GRID_WIDTH cfg) * nat (GRID_HEIGHT cfg)"
  by (simp add: cells_def length_rows)

lemma filter_rows:
  "concat (map (\<lambda>x. concat (map (\<lambda>y. if P (Point x y) then [Point x y] else []) ys)) xs)
     = filter P (concat (map (\<lambda>x. map (Point x) ys) xs))"
proof -
  have "concat (map (\<lambda>y. if P (Point x y) then [Point x y] else []) ys) = filter P (map (Point x) ys)" for x
    by (induction ys) auto
  then show ?thesis by (induction xs) auto
qed

lemma candidates_filter:
  "candidates cfg s = filter (\<lambda>p. p \<notin> poop s \<and> p \<notin> trash s) (cells cfg)"
  unfolding candidates_def cells_def
  using filter_rows[of "\<lambda>p. p \<notin> poop s \<and> p \<notin> trash s"] by simp

lemma fold_swap_mset:
  "\<forall>i \<in> set is. i < length xs \<Longrightarrow>
   mset (fold (\<lambda>i x. let j = randbelow (rng i) (i + 1) in x[i := x ! j, j := x ! i]) is xs) = mset xs"
proof (induction "is" arbitrary: xs)
  case Nil
  then show ?case by simp
next
  case (Cons i "is")
  let ?j = "randbelow (rng i) (i + 1)"
  let ?ys = "xs[i := xs ! ?j, ?j := xs ! i]"
  have i: "i < length xs" using Cons.prems by simp
  have "?j < i + 1" by (simp add: randbelow_def)
  then have j: "?j < length xs" using i by linarith
  have step: "mset ?ys = mset xs" using j i by (rule mset_swap)
  have "\<forall>k \<in> set is. k < length ?ys" using Cons.prems by simp
  then have "mset (fold (\<lambda>i x. let j = randbelow (rng i) (i + 1) in x[i := x ! j, j := x ! i]) is ?ys) = mset ?ys"
    by (rule Cons.IH)
  with step show ?case by (simp add: Let_def)
qed

lemma mset_shuffle: "mset (shuffle rng xs) = mset xs"
  unfolding shuffle_def by (rule fold_swap_mset) simp

lemma set_shuffle: "set (shuffle rng xs) = set xs"
  using mset_shuffle[of rng xs] by (rule mset_eq_setD)

lemma distinct_shuffle: "distinct (shuffle rng xs) = distinct xs"
  using mset_shuffle[of rng xs] by (rule mset_eq_imp_distinct_iff)

lemma length_shuffle: "length (shuffle rng xs) = length xs"
  using mset_shuffle[of rng xs] by (rule mset_eq_length)

lemma populate_trash_Inr:
  assumes "in_grid cfg (player s)"
  shows "populate_trash cfg rng s =
           Inr (s\<lparr>trash := set (slice_to (STARTING_TRASH cfg) (shuffle rng (remove1 (player s) (cells cfg))))\<rparr>)"
  using assms by (simp add: populate_trash_def cells_def[symmetric] set_cells Let_def)

lemma populate_trash_Inl:
  assumes "\<not> in_grid cfg (player s)"
  shows "populate_trash cfg rng s = Inl ValueError"
  using assms by (simp add: populate_trash_def cells_def[symmetric] set_cells Let_def)


lemma in_grid_center: "0 < GRID_WIDTH cfg \<Longrightarrow> 0 < GRID_HEIGHT cfg \<Longrightarrow> in_grid cfg (center cfg)"
  unfolding in_grid_def center_def by simp presburger

lemma restart_Inr:
  assumes "restart cfg rng s = Inr s'"
  shows "in_grid cfg (center cfg) \<and>
         s' = s\<lparr>player := center cfg,
                trash := set (slice_to (STARTING_TRASH cfg) (shuffle rng (remove1 (center cfg) (cells cfg)))),
                poop := {}, game_over := False, victory := False\<rparr>"
proof (cases "in_grid cfg (center cfg)")
  case True
  then show ?thesis
    using assms by (auto simp: restart_def populate_trash_Inr)
next
  case False
  then show ?thesis
    using assms by (simp add: restart_def populate_trash_Inl)
qed

lemma init_Inr:
  assumes "init cfg rng = Inr s'"
  shows "in_grid cfg (center cfg) \<and>
         s' = \<lparr>player = center cfg,
               trash = set (slice_to (STARTING_TRASH cfg) (shuffle rng (remove1 (center cfg) (cells cfg)))),
               poop = {}, game_over = False, victory = False\<rparr>"
proof (cases "in_grid cfg (center cfg)")
  case True
  then show ?thesis
    using assms by (auto simp: init_def populate_trash_Inr)
next
  case False
  then show ?thesis
    using assms by (simp add: init_def populate_trash_Inl)
qed

lemma handle_keypress_cases:
  assumes "handle_keypress cfg keysym rng s = Inr s'"
  obtains (Restart) "game_over s" "restart cfg rng s = Inr s'"
        | (Ignored) "s' = s"
        | (Move) delta where "\<not> game_over s" "movement keysym = Some delta"
            "s' = resolve_player_tile (s\<lparr>player := next_pos cfg (player s) delta\<rparr>)"
proof (cases "game_over s")
  case True
  show ?thesis
  proof (cases "lower keysym = ''r''")
    case r: True
    with True assms have "restart cfg rng s = Inr s'" by (simp add: handle_keypress_def)
    with True show ?thesis by (rule Restart)
  next
    case r: False
    with True assms have "s' = s" by (simp add: handle_keypress_def)
    then show ?thesis by (rule Ignored)
  qed
next
  case False
  show ?thesis
  proof (cases "movement keysym")
    case None
    with False assms have "s' = s" by (simp add: handle_keypress_def)
    then show ?thesis by (rule Ignored)
  next
    case (Some delta)
    with False assms have "s' = resolve_player_tile (s\<lparr>player := next_pos cfg (player s) delta\<rparr>)"
      by (simp add: handle_keypress_def)
    with False Some show ?thesis by (rule Move)
  qed
qed

lemma run_invariant:
  assumes key: "\<And>s keysym rng s'. P s \<Longrightarrow> handle_keypress cfg keysym rng s = Inr s' \<Longrightarrow> P s'"
    and tick: "\<And>s u r. P s \<Longrightarrow> P (poop_spawn_tick cfg u r s)"
  shows "P s \<Longrightarrow> run cfg s es = Inr s' \<Longrightarrow> P s'"
proof (induction es arbitrary: s)
  case Nil
  then show ?case by simp
next
  case (Cons e es)
  show ?case
  proof (cases e)
    case (KeyPress keysym rng)
    with Cons.prems obtain s1 where s1: "handle_keypress cfg keysym rng s = Inr s1" "run cfg s1 es = Inr s'"
      by (auto split: sum.splits)
    from key[OF Cons.prems(1) s1(1)] s1(2) show ?thesis by (rule Cons.IH)
  next
    case (SpawnTick u r)
    with Cons.prems have "run cfg (poop_spawn_tick cfg u r s) es = Inr s'" by simp
    with tick[OF Cons.prems(1)] show ?thesis by (rule Cons.IH)
  qed
qed

lemma play_invariant:
  assumes start: "\<And>rng s. init cfg rng = Inr s \<Longrightarrow> P s"
    and key: "\<And>s keysym rng s'. P s \<Longrightarrow> handle_keypress cfg keysym rng s = Inr s' \<Longrightarrow> P s'"
    and tick: "\<And>s u r. P s \<Longrightarrow> P (poop_spawn_tick cfg u r s)"
  shows "play cfg rng es = Inr s' \<Longrightarrow> P s'"
proof -
  assume "play cfg rng es = Inr s'"
  then obtain s0 where s0: "init cfg rng = Inr s0" "run cfg s0 es = Inr s'"
    by (auto simp: play_def split: sum.splits)
  show "P s'"
  proof (rule run_invariant[of P cfg s0 es s'])
    show "P s0" using s0(1) by (rule start)
    show "run cfg s0 es = Inr s'" by (rule s0(2))
  qed (erule key, assumption, erule tick)
qed

lemma choice_in_set: "xs \<noteq> [] \<Longrightarrow> choice r xs \<in> set xs"
  by (simp add: choice_def randbelow_def)

lemma spawned_free:
  assumes "candidates cfg s \<noteq> []"
  shows "choice r (candidates cfg s) \<notin> trash s \<and> choice r (candidates cfg s) \<notin> poop s
         \<and> in_grid cfg (choice r (candidates cfg s))"
  using choice_in_set[OF assms, of r] by (simp add: candidates_filter set_cells)

lemma disjoint_resolve:
  "trash s \<inter> poop s = {} \<Longrightarrow> trash (resolve_player_tile s) \<inter> poop (resolve_player_tile s) = {}"
  by (auto simp: resolve_player_tile_def trigger_game_over_def Let_def)

lemma disjoint_key:
  assumes "trash s \<inter> poop s = {}" "handle_keypress cfg keysym rng s = Inr s'"
  shows "trash s' \<inter> poop s' = {}"
  using assms(2)
proof (cases rule: handle_keypress_cases)
  case Restart
  then show ?thesis using restart_Inr[of cfg rng s s'] by simp
next
  case Ignored
  then show ?thesis using assms(1) by simp
next
  case (Move delta)
  then show ?thesis using disjoint_resolve[of "s\<lparr>player := next_pos cfg (player s) delta\<rparr>"] assms(1) by simp
qed

lemma disjoint_tick:
  assumes "trash s \<inter> poop s = {}"
  shows "trash (poop_spawn_tick cfg u r s) \<inter> poop (poop_spawn_tick cfg u r s) = {}"
  using assms spawned_free[of cfg s r]
  by (auto simp: poop_spawn_tick_def trigger_game_over_def Let_def)

lemma play_disjoint: "play cfg rng es = Inr s \<Longrightarrow> trash s \<inter> poop s = {}"
proof (rule play_invariant[where P = "\<lambda>s. trash s \<inter> poop s = {}"])
  show "trash s \<inter> poop s = {}" if "init cfg rng = Inr s" for rng s
    using init_Inr[OF that] by simp
next
  show "trash s' \<inter> poop s' = {}"
    if "trash s \<inter> poop s = {}" "handle_keypress cfg keysym rng s = Inr s'" for s keysym rng s'
    using that by (rule disjoint_key)
next
  show "trash (poop_spawn_tick cfg u r s) \<inter> poop (poop_spawn_tick cfg u r s) = {}"
    if "trash s \<inter> poop s = {}" for s u r
    using that by (rule disjoint_tick)
qed

lemma in_grid_next_pos: "in_grid cfg p \<Longrightarrow> in_grid cfg (next_pos cfg p delta)"
  by (auto simp: in_grid_def next_pos_def)

lemma player_resolve: "player (resolve_player_tile s) = player s"
  by (simp add: resolve_player_tile_def trigger_game_over_def Let_def)

lemma player_tick: "player (poop_spawn_tick cfg u r s) = player s"
  by (simp add: poop_spawn_tick_def trigger_game_over_def Let_def)

lemma bounds_key:
  assumes "in_grid cfg (player s)" "handle_keypress cfg keysym rng s = Inr s'"
  shows "in_grid cfg (player s')"
  using assms(2)
proof (cases rule: handle_keypress_cases)
  case Restart
  then show ?thesis using restart_Inr[of cfg rng s s'] by simp
next
  case Ignored
  then show ?thesis using assms(1) by simp
next
  case (Move delta)
  then show ?thesis using assms(1) by (simp add: player_resolve in_grid_next_pos)
qed

lemma play_in_grid: "play cfg rng es = Inr s \<Longrightarrow> in_grid cfg (player s)"
proof (rule play_invariant[where P = "\<lambda>s. in_grid cfg (player s)"])
  show "in_grid cfg (player s)" if "init cfg rng = Inr s" for rng s
    using init_Inr[OF that] by simp
qed (auto intro: bounds_key simp: player_tick)

lemma lost_resolve: "\<not> game_over s \<Longrightarrow> lost_on_poop (resolve_player_tile s)"
  by (auto simp: lost_on_poop_def resolve_player_tile_def trigger_game_over_def Let_def)

lemma lost_key:
  assumes "lost_on_poop s" "handle_keypress cfg keysym rng s = Inr s'"
  shows "lost_on_poop s'"
  using assms(2)
proof (cases rule: handle_keypress_cases)
  case Restart
  then show ?thesis using restart_Inr[of cfg rng s s'] by (simp add: lost_on_poop_def)
next
  case Ignored
  then show ?thesis using assms(1) by simp
next
  case (Move delta)
  then show ?thesis using lost_resolve[of "s\<lparr>player := next_pos cfg (player s) delta\<rparr>"] by simp
qed

lemma lost_tick: "lost_on_poop s \<Longrightarrow> lost_on_poop (poop_spawn_tick cfg u r s)"
  by (auto simp: lost_on_poop_def poop_spawn_tick_def trigger_game_over_def Let_def)

lemma play_lost: "play cfg rng es = Inr s \<Longrightarrow> lost_on_poop s"
proof (rule play_invariant[where P = lost_on_poop])
  show "lost_on_poop s" if "init cfg rng = Inr s" for rng s
    using init_Inr[OF that] by (simp add: lost_on_poop_def)
qed (auto intro: lost_key lost_tick)

lemmas board_defs =
  play_def init_def restart_def populate_trash_def center_def shuffle_def randbelow_def
  slice_to_def choice_def handle_keypress_def resolve_player_tile_def trigger_game_over_def
  movement_def next_pos_def candidates_def poop_spawn_tick_def lower_def lower_char_def
  zero_draws_def grid3_def grid2_def start3_def start2_def lost3_def upto.simps Let_def

lemma movement_keys:
  "movement keysym \<noteq> None \<Longrightarrow>
   keysym \<in> {''Up'', ''Down'', ''Left'', ''Right'', ''w'', ''s'', ''a'', ''d''}"
  by (simp add: movement_def split: if_splits)

lemma movement_deltas:
  "movement keysym = Some delta \<Longrightarrow>
   delta \<in> {Point 0 (- 1), Point 0 1, Point (- 1) 0, Point 1 0}"
  by (auto simp: movement_def split: if_splits)

lemma movement_not_restart: "movement keysym \<noteq> None \<Longrightarrow> lower keysym \<noteq> ''r''"
  by (drule movement_keys) (auto simp: lower_def lower_char_def)

lemma terminal_key:
  "game_over s \<Longrightarrow> movement keysym \<noteq> None \<Longrightarrow> handle_keypress cfg keysym rng s = Inr s"
  by (simp add: handle_keypress_def movement_not_restart)

lemma terminal_tick: "game_over s \<Longrightarrow> poop_spawn_tick cfg u r s = s"
  by (simp add: poop_spawn_tick_def)

lemma terminal_run:
  "game_over s \<Longrightarrow> list_all movement_or_tick es \<Longrightarrow> run cfg s es = Inr s"
proof (induction es)
  case Nil
  then show ?case by simp
next
  case (Cons e es)
  then show ?case by (cases e) (simp_all add: terminal_key terminal_tick)
qed

text \<open>
  Claim C2. Once \<open>game_over\<close> is set, a key press of any movement key and a spawn tick
  each return the state as it was, without raising; so does any sequence of them. Only
  the restart key leaves a terminal state.
\<close>

theorem post_terminal_noop:
  assumes "game_over s"
  shows "(\<forall>keysym rng. movement keysym \<noteq> None \<longrightarrow> handle_keypress cfg keysym rng s = Inr s)
       \<and> (\<forall>u r. poop_spawn_tick cfg u r s = s)
       \<and> (\<forall>es. list_all movement_or_tick es \<longrightarrow> run cfg s es = Inr s)"
  using assms by (simp add: terminal_key terminal_tick terminal_run)

text \<open>On the lost 3\<times>3 board, movement keys and ticks change nothing.\<close>

theorem post_terminal_noop_witness:
  "game_over lost3
   \<and> movement ''Left'' \<noteq> None \<and> handle_keypress grid3 ''Left'' zero_draws lost3 = Inr lost3
   \<and> poop_spawn_tick grid3 0 0 lost3 = lost3
   \<and> list_all movement_or_tick [KeyPress ''w'' zero_draws, SpawnTick 0 5, KeyPress ''Down'' zero_draws]
   \<and> run grid3 lost3 [KeyPress ''w'' zero_draws, SpawnTick 0 5, KeyPress ''Down'' zero_draws] = Inr lost3"
proof -
  have g: "game_over lost3" by (simp add: lost3_def)
  have m: "movement ''Left'' \<noteq> None" by (simp add: movement_def)
  have l: "list_all movement_or_tick [KeyPress ''w'' zero_draws, SpawnTick 0 5, KeyPress ''Down'' zero_draws]"
    by (simp add: movement_def)
  show ?thesis using g m l post_terminal_noop[OF g, of grid3] by blast
qed

text \<open>
  Claim C1. In every state that \<open>__init__\<close> followed by any sequence of key presses
  (moves, restarts, ignored keys) and spawn ticks can produce, no cell is both a trash
  tile and a poop tile.
\<close>

theorem trash_poop_disjoint: "play cfg rng es = Inr s \<Longrightarrow> trash s \<inter> poop s = {}"
  by (rule play_disjoint)

text \<open>A run on the 3\<times>3 board: lost by a spawn, restarted, a spawn, a move.\<close>

theorem trash_poop_disjoint_witness:
  "play grid3 zero_draws
     [SpawnTick 0 3, KeyPress ''r'' zero_draws, SpawnTick 0 0, KeyPress ''Right'' zero_draws]
   = Inr (start3\<lparr>player := Point 2 1, poop := {Point 0 0}\<rparr>)
   \<and> trash (start3\<lparr>player := Point 2 1, poop := {Point 0 0}\<rparr>)
       \<inter> poop (start3\<lparr>player := Point 2 1, poop := {Point 0 0}\<rparr>) = {}"
proof -
  have r: "play grid3 zero_draws
     [SpawnTick 0 3, KeyPress ''r'' zero_draws, SpawnTick 0 0, KeyPress ''Right'' zero_draws]
   = Inr (start3\<lparr>player := Point 2 1, poop := {Point 0 0}\<rparr>)"
    by (simp add: board_defs)
  show ?thesis using r trash_poop_disjoint[OF r] by simp
qed

text \<open>
  Claim C4. In every such state the player is on the board:
  \<open>0 \<le> x < GRID_WIDTH\<close> and \<open>0 \<le> y < GRID_HEIGHT\<close>. Positive dimensions need not be
  assumed: with a dimension that is not positive \<open>__init__\<close> raises and there is no state.
\<close>

theorem player_in_bounds:
  "play cfg rng es = Inr s \<Longrightarrow>
   0 \<le> point_x (player s) \<and> point_x (player s) < GRID_WIDTH cfg \<and>
   0 \<le> point_y (player s) \<and> point_y (player s) < GRID_HEIGHT cfg"
  using play_in_grid[of cfg rng es s] by (simp add: in_grid_def)

text \<open>A run that pushes the player against the right and the top edge.\<close>

theorem player_in_bounds_witness:
  "play grid3 zero_draws
     [KeyPress ''Right'' zero_draws, KeyPress ''d'' zero_draws, KeyPress ''Up'' zero_draws,
      KeyPress ''w'' zero_draws]
   = Inr (start3\<lparr>player := Point 2 0\<rparr>)
   \<and> 0 \<le> point_x (player (start3\<lparr>player := Point 2 0\<rparr>))
   \<and> point_x (player (start3\<lparr>player := Point 2 0\<rparr>)) < GRID_WIDTH grid3
   \<and> 0 \<le> point_y (player (start3\<lparr>player := Point 2 0\<rparr>))
   \<and> point_y (player (start3\<lparr>player := Point 2 0\<rparr>)) < GRID_HEIGHT grid3"
proof -
  have r: "play grid3 zero_draws
     [KeyPress ''Right'' zero_draws, KeyPress ''d'' zero_draws, KeyPress ''Up'' zero_draws,
      KeyPress ''w'' zero_draws]
   = Inr (start3\<lparr>player := Point 2 0\<rparr>)"
    by (simp add: board_defs)
  show ?thesis using r player_in_bounds[OF r] by simp
qed

text \<open>
  Claim C5. In every such state, if the game is over and not won, the player stands on
  a poop tile.
\<close>

theorem lost_means_on_poop:
  "play cfg rng es = Inr s \<Longrightarrow> game_over s \<Longrightarrow> \<not> victory s \<Longrightarrow> player s \<in> poop s"
  using play_lost[of cfg rng es s] by (simp add: lost_on_poop_def)

text \<open>A loss by moving onto a spawned tile.\<close>

theorem lost_means_on_poop_witness:
  "play grid3 zero_draws [SpawnTick 0 6, KeyPress ''Right'' zero_draws]
   = Inr (start3\<lparr>player := Point 2 1, poop := {Point 2 1}, game_over := True\<rparr>)
   \<and> game_over (start3\<lparr>player := Point 2 1, poop := {Point 2 1}, game_over := True\<rparr>)
   \<and> \<not> victory (start3\<lparr>player := Point 2 1, poop := {Point 2 1}, game_over := True\<rparr>)
   \<and> player (start3\<lparr>player := Point 2 1, poop := {Point 2 1}, game_over := True\<rparr>)
       \<in> poop (start3\<lparr>player := Point 2 1, poop := {Point 2 1}, game_over := True\<rparr>)"
proof -
  have r: "play grid3 zero_draws [SpawnTick 0 6, KeyPress ''Right'' zero_draws]
   = Inr (start3\<lparr>player := Point 2 1, poop := {Point 2 1}, game_over := True\<rparr>)"
    by (simp add: board_defs)
  have g: "game_over (start3\<lparr>player := Point 2 1, poop := {Point 2 1}, game_over := True\<rparr>)"
    by simp
  have v: "\<not> victory (start3\<lparr>player := Point 2 1, poop := {Point 2 1}, game_over := True\<rparr>)"
    by (simp add: start3_def)
  show ?thesis using r g v lost_means_on_poop[OF r g v] by simp
qed

text \<open>
  Claim C6. In a state of a run that is not terminal, a move whose clamped destination
  is a trash tile puts the player there and removes that tile from \<open>trash\<close>; if \<open>trash\<close>
  is then empty the state is won (\<open>game_over\<close> and \<open>victory\<close> both set), otherwise the
  flags and \<open>poop\<close> are as before. The destination cannot also be a poop tile, because
  the two sets are disjoint in every state of a run.
\<close>

theorem move_onto_trash:
  assumes "play cfg rng es = Inr s" and "\<not> game_over s" and "movement keysym = Some delta"
    and "next_pos cfg (player s) delta \<in> trash s"
  shows "handle_keypress cfg keysym rng' s =
           Inr (if trash s - {next_pos cfg (player s) delta} = {}
                then s\<lparr>player := next_pos cfg (player s) delta, trash := {},
                       game_over := True, victory := True\<rparr>
                else s\<lparr>player := next_pos cfg (player s) delta,
                       trash := trash s - {next_pos cfg (player s) delta}\<rparr>)"
proof -
  have "trash s \<inter> poop s = {}" using assms(1) by (rule play_disjoint)
  with assms(4) have "next_pos cfg (player s) delta \<notin> poop s" by auto
  with assms(2,3,4) show ?thesis
    by (simp add: handle_keypress_def resolve_player_tile_def Let_def)
qed

text \<open>The win scenario: the player steps left onto the only trash tile.\<close>

theorem move_onto_trash_witness:
  "play grid3 zero_draws [SpawnTick 0 0] = Inr (start3\<lparr>poop := {Point 0 0}\<rparr>)
   \<and> \<not> game_over (start3\<lparr>poop := {Point 0 0}\<rparr>)
   \<and> movement ''Left'' = Some (Point (- 1) 0)
   \<and> next_pos grid3 (player (start3\<lparr>poop := {Point 0 0}\<rparr>)) (Point (- 1) 0)
        \<in> trash (start3\<lparr>poop := {Point 0 0}\<rparr>)
   \<and> handle_keypress grid3 ''Left'' zero_draws (start3\<lparr>poop := {Point 0 0}\<rparr>)
       = Inr \<lparr>player = Point 0 1, trash = {}, poop = {Point 0 0}, game_over = True, victory = True\<rparr>"
proof -
  have r: "play grid3 zero_draws [SpawnTick 0 0] = Inr (start3\<lparr>poop := {Point 0 0}\<rparr>)"
    by (simp add: board_defs)
  have g: "\<not> game_over (start3\<lparr>poop := {Point 0 0}\<rparr>)" by (simp add: start3_def)
  have m: "movement ''Left'' = Some (Point (- 1) 0)" by (simp add: movement_def)
  have t: "next_pos grid3 (player (start3\<lparr>poop := {Point 0 0}\<rparr>)) (Point (- 1) 0)
        \<in> trash (start3\<lparr>poop := {Point 0 0}\<rparr>)"
    by (simp add: start3_def next_pos_def grid3_def)
  show ?thesis
    using r g m t move_onto_trash[OF r g m t, of zero_draws]
    by (simp add: start3_def next_pos_def grid3_def)
qed

text \<open>
  Claim C7. In a non-terminal state, when the draw of a spawn tick is below
  \<open>POOP_SPAWN_CHANCE\<close> and the cell chosen among the candidates is the player's own, the
  tick adds that cell to \<open>poop\<close> and sets \<open>game_over\<close> with \<open>victory\<close> cleared; the player
  and the trash stay as they were.
\<close>

theorem spawn_on_player:
  assumes "\<not> game_over s" and "u < POOP_SPAWN_CHANCE cfg" and "candidates cfg s \<noteq> []"
    and "choice r (candidates cfg s) = player s"
  shows "poop_spawn_tick cfg u r s =
           s\<lparr>poop := insert (player s) (poop s), game_over := True, victory := False\<rparr>"
  using assms by (simp add: poop_spawn_tick_def trigger_game_over_def Let_def)

text \<open>The loss-by-spawn scenario: the player's cell is the only candidate.\<close>

theorem spawn_on_player_witness:
  "\<not> game_over start2 \<and> 0 < POOP_SPAWN_CHANCE grid2 \<and> candidates grid2 start2 = [Point 1 1]
   \<and> choice 7 (candidates grid2 start2) = player start2
   \<and> poop_spawn_tick grid2 0 7 start2 =
       \<lparr>player = Point 1 1, trash = {Point 0 0, Point 0 1, Point 1 0}, poop = {Point 1 1},
        game_over = True, victory = False\<rparr>"
proof -
  have g: "\<not> game_over start2" by (simp add: start2_def)
  have u: "0 < POOP_SPAWN_CHANCE grid2" by (simp add: grid2_def)
  have c: "candidates grid2 start2 = [Point 1 1]" by (simp add: board_defs)
  have n: "candidates grid2 start2 \<noteq> []" by (simp add: c)
  have p: "choice 7 (candidates grid2 start2) = player start2"
    unfolding c by (simp add: choice_def randbelow_def start2_def)
  show ?thesis
    using g u c p spawn_on_player[OF g u n p] by (simp add: start2_def)
qed

text \<open>
  Claim C10. In a non-terminal state, a move whose clamped destination is a poop tile
  changes the player's position and the two flags only: \<open>trash\<close> and \<open>poop\<close> are exactly
  as before, also when the destination is a trash tile as well.
\<close>

theorem move_onto_poop:
  assumes "\<not> game_over s" and "movement keysym = Some delta"
    and "next_pos cfg (player s) delta \<in> poop s"
  shows "handle_keypress cfg keysym rng s =
           Inr (s\<lparr>player := next_pos cfg (player s) delta, game_over := True, victory := False\<rparr>)"
  using assms by (simp add: handle_keypress_def resolve_player_tile_def trigger_game_over_def)

text \<open>The loss-by-move scenario: a poop tile at \<open>(2, 1)\<close>, the player moves right.\<close>

theorem move_onto_poop_witness:
  "\<not> game_over (start3\<lparr>poop := {Point 2 1}\<rparr>)
   \<and> movement ''d'' = Some (Point 1 0)
   \<and> next_pos grid3 (player (start3\<lparr>poop := {Point 2 1}\<rparr>)) (Point 1 0)
        \<in> poop (start3\<lparr>poop := {Point 2 1}\<rparr>)
   \<and> handle_keypress grid3 ''d'' zero_draws (start3\<lparr>poop := {Point 2 1}\<rparr>)
       = Inr \<lparr>player = Point 2 1, trash = {Point 0 1}, poop = {Point 2 1},
              game_over = True, victory = False\<rparr>"
proof -
  have g: "\<not> game_over (start3\<lparr>poop := {Point 2 1}\<rparr>)" by (simp add: start3_def)
  have m: "movement ''d'' = Some (Point 1 0)" by (simp add: movement_def)
  have t: "next_pos grid3 (player (start3\<lparr>poop := {Point 2 1}\<rparr>)) (Point 1 0)
        \<in> poop (start3\<lparr>poop := {Point 2 1}\<rparr>)"
    by (simp add: start3_def next_pos_def grid3_def)
  show ?thesis
    using g m t move_onto_poop[OF g m t, of zero_draws]
    by (simp add: start3_def next_pos_def grid3_def)
qed

text \<open>
  Claim C8. On a board with positive dimensions, in a non-terminal state, a movement key
  stands for one of the four unit deltas, and the key press succeeds. With \<open>n\<close> the
  coordinate-wise \<open>clamp\<close> of position plus delta into
  \<open>[0, GRID_WIDTH - 1] \<times> [0, GRID_HEIGHT - 1]\<close>, the player is at \<open>n\<close> in the new state
  whatever the outcome, and the tile at \<open>n\<close> is resolved: on a poop tile the game is lost
  and nothing else changes; otherwise on a trash tile that tile is removed, and the game
  is won if no trash is left; otherwise only the player has changed. From \<open>(0, 0)\<close> a move
  by \<open>(-1, 0)\<close> or \<open>(0, -1)\<close> has \<open>n = (0, 0)\<close>, and the tile is resolved in the same way.
\<close>

lemma min_max_clamp: "0 \<le> hi \<Longrightarrow> min (max v 0) hi = clamp v 0 hi"
  by (simp add: clamp_def)

theorem move_clamps_then_resolves:
  assumes "0 < GRID_WIDTH cfg" and "0 < GRID_HEIGHT cfg"
    and "\<not> game_over s" and "movement keysym = Some delta"
  shows "delta \<in> {Point 0 (- 1), Point 0 1, Point (- 1) 0, Point 1 0}
       \<and> (let n = Point (clamp (point_x (player s) + point_x delta) 0 (GRID_WIDTH cfg - 1))
                         (clamp (point_y (player s) + point_y delta) 0 (GRID_HEIGHT cfg - 1))
          in handle_keypress cfg keysym rng s =
               Inr (if n \<in> poop s then s\<lparr>player := n, game_over := True, victory := False\<rparr>
                    else if n \<in> trash s then
                      (if trash s - {n} = {}
                       then s\<lparr>player := n, trash := {}, game_over := True, victory := True\<rparr>
                       else s\<lparr>player := n, trash := trash s - {n}\<rparr>)
                    else s\<lparr>player := n\<rparr>)
             \<and> (player s = Point 0 0 \<and> (delta = Point (- 1) 0 \<or> delta = Point 0 (- 1))
                  \<longrightarrow> n = Point 0 0))"
proof -
  let ?n = "Point (clamp (point_x (player s) + point_x delta) 0 (GRID_WIDTH cfg - 1))
                  (clamp (point_y (player s) + point_y delta) 0 (GRID_HEIGHT cfg - 1))"
  have d: "delta \<in> {Point 0 (- 1), Point 0 1, Point (- 1) 0, Point 1 0}"
    using assms(4) by (rule movement_deltas)
  have n: "next_pos cfg (player s) delta = ?n"
    using assms(1,2) by (simp add: next_pos_def min_max_clamp)
  have h: "handle_keypress cfg keysym rng s =
             Inr (if ?n \<in> poop s then s\<lparr>player := ?n, game_over := True, victory := False\<rparr>
                  else if ?n \<in> trash s then
                    (if trash s - {?n} = {}
                     then s\<lparr>player := ?n, trash := {}, game_over := True, victory := True\<rparr>
                     else s\<lparr>player := ?n, trash := trash s - {?n}\<rparr>)
                  else s\<lparr>player := ?n\<rparr>)"
    using assms(3,4)
    by (simp add: handle_keypress_def n resolve_player_tile_def trigger_game_over_def Let_def)
  have c: "?n = Point 0 0"
    if "player s = Point 0 0" "delta = Point (- 1) 0 \<or> delta = Point 0 (- 1)"
    using that assms(1,2) by (auto simp: clamp_def)
  show ?thesis
    unfolding Let_def using d h c by blast
qed

text \<open>
  Four moves on the 3\<times>3 board: up from \<open>(0, 0)\<close>, which stays and changes nothing; left
  from \<open>(0, 0)\<close> with a poop tile there, which stays and loses; left from the centre onto
  one of two trash tiles; left from the centre onto the last trash tile, which wins.
\<close>

theorem move_clamps_then_resolves_witness:
  "0 < GRID_WIDTH grid3 \<and> 0 < GRID_HEIGHT grid3
   \<and> \<not> game_over (start3\<lparr>player := Point 0 0\<rparr>)
   \<and> movement ''Up'' = Some (Point 0 (- 1))
   \<and> handle_keypress grid3 ''Up'' zero_draws (start3\<lparr>player := Point 0 0\<rparr>)
       = Inr \<lparr>player = Point 0 0, trash = {Point 0 1}, poop = {}, game_over = False,
              victory = False\<rparr>
   \<and> \<not> game_over (start3\<lparr>player := Point 0 0, poop := {Point 0 0}\<rparr>)
   \<and> movement ''Left'' = Some (Point (- 1) 0)
   \<and> handle_keypress grid3 ''Left'' zero_draws (start3\<lparr>player := Point 0 0, poop := {Point 0 0}\<rparr>)
       = Inr \<lparr>player = Point 0 0, trash = {Point 0 1}, poop = {Point 0 0}, game_over = True,
              victory = False\<rparr>
   \<and> \<not> game_over (start3\<lparr>trash := {Point 0 1, Point 2 2}\<rparr>)
   \<and> movement ''a'' = Some (Point (- 1) 0)
   \<and> handle_keypress grid3 ''a'' zero_draws (start3\<lparr>trash := {Point 0 1, Point 2 2}\<rparr>)
       = Inr \<lparr>player = Point 0 1, trash = {Point 2 2}, poop = {}, game_over = False,
              victory = False\<rparr>
   \<and> \<not> game_over start3
   \<and> handle_keypress grid3 ''a'' zero_draws start3
       = Inr \<lparr>player = Point 0 1, trash = {}, poop = {}, game_over = True, victory = True\<rparr>"
proof -
  have w: "0 < GRID_WIDTH grid3" and h: "0 < GRID_HEIGHT grid3" by (simp_all add: grid3_def)
  have g1: "\<not> game_over (start3\<lparr>player := Point 0 0\<rparr>)" by (simp add: start3_def)
  have g2: "\<not> game_over (start3\<lparr>player := Point 0 0, poop := {Point 0 0}\<rparr>)"
    by (simp add: start3_def)
  have g3: "\<not> game_over (start3\<lparr>trash := {Point 0 1, Point 2 2}\<rparr>)" by (simp add: start3_def)
  have g4: "\<not> game_over start3" by (simp add: start3_def)
  have m1: "movement ''Up'' = Some (Point 0 (- 1))" by (simp add: movement_def)
  have m2: "movement ''Left'' = Some (Point (- 1) 0)" by (simp add: movement_def)
  have m3: "movement ''a'' = Some (Point (- 1) 0)" by (simp add: movement_def)
  show ?thesis
    using w h g1 g2 g3 g4 m1 m2 m3
      move_clamps_then_resolves[OF w h g1 m1, of zero_draws]
      move_clamps_then_resolves[OF w h g2 m2, of zero_draws]
      move_clamps_then_resolves[OF w h g3 m3, of zero_draws]
      move_clamps_then_resolves[OF w h g4 m3, of zero_draws]
    by (simp add: start3_def grid3_def clamp_def Let_def)
qed

lemma distinct_shuffled: "distinct (shuffled cfg rng)"
  by (simp add: shuffled_def distinct_shuffle distinct_cells)

lemma set_shuffled: "set (shuffled cfg rng) = {p. in_grid cfg p} - {center cfg}"
  by (simp add: shuffled_def set_shuffle distinct_cells set_cells)

lemma length_shuffled:
  assumes "0 < GRID_WIDTH cfg" and "0 < GRID_HEIGHT cfg"
  shows "int (length (shuffled cfg rng)) = GRID_WIDTH cfg * GRID_HEIGHT cfg - 1"
proof -
  have "center cfg \<in> set (cells cfg)"
    using assms by (simp add: set_cells in_grid_center)
  then have "length (shuffled cfg rng) = nat (GRID_WIDTH cfg) * nat (GRID_HEIGHT cfg) - 1"
    by (simp add: shuffled_def length_shuffle length_remove1 length_cells)
  moreover have "0 < nat (GRID_WIDTH cfg) * nat (GRID_HEIGHT cfg)" using assms by simp
  ultimately have "int (length (shuffled cfg rng)) = int (nat (GRID_WIDTH cfg) * nat (GRID_HEIGHT cfg)) - 1"
    by linarith
  then show ?thesis using assms by simp
qed

lemma populate_from_center:
  assumes "0 < GRID_WIDTH cfg" and "0 < GRID_HEIGHT cfg" and "player s = center cfg"
  shows "populate_trash cfg rng s
         = Inr (s\<lparr>trash := set (slice_to (STARTING_TRASH cfg) (shuffled cfg rng))\<rparr>)"
  using assms populate_trash_Inr[of cfg s rng] by (simp add: in_grid_center shuffled_def)


lemma slice_to_all: "int (length xs) \<le> k \<Longrightarrow> slice_to k xs = xs"
  by (simp add: slice_to_def)



text \<open>
  Claim C3 asks that \<open>__init__\<close> raise when \<open>STARTING_TRASH\<close> is at least the number of
  cells. On the 2\<times>2 board with \<open>STARTING_TRASH = 4\<close> it returns a state with three trash
  tiles instead.
\<close>

theorem init_no_error_counterexample:
  "GRID_WIDTH grid2 * GRID_HEIGHT grid2 \<le> STARTING_TRASH grid2
   \<and> init grid2 zero_draws =
       Inr \<lparr>player = Point 1 1, trash = {Point 0 0, Point 0 1, Point 1 0}, poop = {},
            game_over = False, victory = False\<rparr>"
  by (simp add: board_defs insert_commute)

text \<open>
  Claim C3, as the code has it. On a board with positive dimensions whose
  \<open>STARTING_TRASH\<close> is at least the number of cells, \<open>__init__\<close> does not raise: the slice
  keeps what there is, and the trash set is every cell except the player's,
  \<open>GRID_WIDTH * GRID_HEIGHT - 1\<close> tiles.
\<close>

theorem init_truncates:
  assumes "0 < GRID_WIDTH cfg" and "0 < GRID_HEIGHT cfg"
    and "GRID_WIDTH cfg * GRID_HEIGHT cfg \<le> STARTING_TRASH cfg"
  shows "init cfg rng =
           Inr \<lparr>player = center cfg, trash = {p. in_grid cfg p} - {center cfg}, poop = {},
                game_over = False, victory = False\<rparr>
         \<and> int (card ({p. in_grid cfg p} - {center cfg})) = GRID_WIDTH cfg * GRID_HEIGHT cfg - 1"
proof -
  have l: "int (length (shuffled cfg rng)) = GRID_WIDTH cfg * GRID_HEIGHT cfg - 1"
    using assms(1,2) by (rule length_shuffled)
  then have "slice_to (STARTING_TRASH cfg) (shuffled cfg rng) = shuffled cfg rng"
    using assms(3) by (intro slice_to_all) simp
  then have "init cfg rng =
           Inr \<lparr>player = center cfg, trash = {p. in_grid cfg p} - {center cfg}, poop = {},
                game_over = False, victory = False\<rparr>"
    using assms(1,2) by (simp add: init_def populate_from_center set_shuffled)
  moreover have "card ({p. in_grid cfg p} - {center cfg}) = length (shuffled cfg rng)"
    using distinct_card[OF distinct_shuffled[of cfg rng]] by (simp add: set_shuffled)
  ultimately show ?thesis using l by simp
qed

text \<open>The 2\<times>2 board again, with another random source.\<close>

theorem init_truncates_witness:
  "0 < GRID_WIDTH grid2 \<and> 0 < GRID_HEIGHT grid2
   \<and> GRID_WIDTH grid2 * GRID_HEIGHT grid2 \<le> STARTING_TRASH grid2
   \<and> init grid2 last_draws =
       Inr \<lparr>player = Point 1 1, trash = {p. in_grid grid2 p} - {Point 1 1}, poop = {},
            game_over = False, victory = False\<rparr>
   \<and> int (card ({p. in_grid grid2 p} - {Point 1 1})) = 3"
proof -
  have w: "0 < GRID_WIDTH grid2" and h: "0 < GRID_HEIGHT grid2"
    and k: "GRID_WIDTH grid2 * GRID_HEIGHT grid2 \<le> STARTING_TRASH grid2"
    by (simp_all add: grid2_def)
  show ?thesis
    using w h k init_truncates[OF w h k, of last_draws]
    by (simp add: grid2_def center_def)
qed

end
